theory Spec2Isabelle
  imports Main
begin

section \<open>The notification provider of the web client\<close>

text \<open>
  The development embeds \<^verbatim>\<open>NotificationProvider\<close> of
  \<^verbatim>\<open>frontend/src/context/NotificationContext.js\<close>: the four pieces of React state, the
  WebSocket handlers installed by \<^verbatim>\<open>connectWebSocket\<close>, and the three asynchronous
  actions \<^verbatim>\<open>fetchNotifications\<close>, \<^verbatim>\<open>markAsRead\<close> and \<^verbatim>\<open>markAllAsRead\<close>.

  Everything the JavaScript reads from its surroundings is an argument of the model: the
  token found in \<^verbatim>\<open>localStorage\<close>, the outcome of a \<^verbatim>\<open>fetch\<close>, the outcome of
  \<^verbatim>\<open>JSON.parse\<close>, and the variables a closure has captured. Everything it does to
  its surroundings is appended to a field of the state: frames sent on the socket, requests
  issued, sockets constructed and closed, timers scheduled, and lines written with
  \<^verbatim>\<open>console.error\<close>.
\<close>

subsection \<open>Data\<close>

text \<open>
  A notification as the client uses it: the identifier compared by \<^verbatim>\<open>===\<close>, the read
  flag, and the remaining fields (title, body, sender, ...) which the provider only copies.
\<close>

record notification =
  nid :: nat
  is_read :: bool
  payload :: string

text \<open>The JSON body of the list endpoint: \<^verbatim>\<open>data.items\<close> and \<^verbatim>\<open>data.unread_count\<close>.\<close>

record page =
  items :: "notification list"
  unread_count :: int

text \<open>
  What \<^verbatim>\<open>await fetch(...)\<close> gives: the promise rejects with an error (a network
  failure; the string is the error's message), or it yields a response whose \<^verbatim>\<open>ok\<close>
  is false, or one whose \<^verbatim>\<open>ok\<close> is true, with its JSON body.
\<close>

datatype 'b fetch_result = Network_error string | Not_ok | Ok 'b

text \<open>
  A decoded inbound frame: the fields the handler reads, \<^verbatim>\<open>data.type\<close>,
  \<^verbatim>\<open>data.data\<close>, \<^verbatim>\<open>data.notification_id\<close> and \<^verbatim>\<open>data.is_read\<close>.
  Inside the handler's \<^verbatim>\<open>try\<close>, \<^verbatim>\<open>JSON.parse\<close> either throws (the string
  is the error's message) or returns such an object.
\<close>

record ws_json =
  msg_type :: string
  msg_data :: notification
  msg_notification_id :: nat
  msg_is_read :: bool

datatype ws_data = Unparseable string | Parsed ws_json

text \<open>The one frame the client sends, and the three requests it issues (with the bearer token).\<close>

datatype ws_out = Mark_read nat

datatype request =
    Get_notifications string
  | Put_notification nat string
  | Put_mark_all_read string

text \<open>
  The provider's state. The first four fields are the \<^verbatim>\<open>useState\<close> cells; the others
  record the effects: frames passed to \<^verbatim>\<open>socket.send\<close>, requests passed to
  \<^verbatim>\<open>fetch\<close>, the tokens of the \<^verbatim>\<open>new WebSocket\<close> calls, the sockets on which
  \<^verbatim>\<open>close()\<close> was called, the delays of the pending \<^verbatim>\<open>setTimeout\<close> calls, and
  the \<^verbatim>\<open>console.error\<close> lines (label and error).
\<close>

record sync_state =
  notifications :: "notification list"
  unreadCount :: int
  socket :: "nat option"
  isConnected :: bool
  sent :: "ws_out list"
  requests :: "request list"
  ws_created :: "string list"
  ws_closed :: "nat list"
  timers :: "nat list"
  console_errors :: "(string \<times> string) list"

text \<open>
  The body of a \<^verbatim>\<open>try\<close> block either completes, or throws an error message in the state
  reached so far. An \<^verbatim>\<open>async\<close> function hands its caller a promise that is fulfilled
  when the function returns and rejected when an error escapes it.
\<close>

datatype 'a attempt = Completes 'a | Throws string 'a

datatype promise = Fulfilled | Rejected string

text \<open>
  \<^verbatim>\<open>try { ... } catch (error) { console.error(label, error); }\<close> as the whole body of
  an \<^verbatim>\<open>async\<close> function: the handler writes the line and the function returns.
\<close>

definition catch_console_error :: "string \<Rightarrow> sync_state attempt \<Rightarrow> promise \<times> sync_state" where
  "catch_console_error label a =
     (case a of
        Completes s \<Rightarrow> (Fulfilled, s)
      | Throws e s \<Rightarrow> (Fulfilled, s\<lparr>console_errors := console_errors s @ [(label, e)]\<rparr>))"

subsection \<open>Handlers of pushed messages\<close>

definition handleNewNotification :: "notification \<Rightarrow> sync_state \<Rightarrow> sync_state" where
  "handleNewNotification notification s =
     s\<lparr>notifications := notification # notifications s,
       unreadCount := unreadCount s + 1\<rparr>"

definition handleNotificationUpdate :: "ws_json \<Rightarrow> sync_state \<Rightarrow> sync_state" where
  "handleNotificationUpdate data s =
     (let notification_id = msg_notification_id data;
          is_read' = msg_is_read data;
          s1 = s\<lparr>notifications :=
                   map (\<lambda>notification.
                          if nid notification = notification_id
                          then notification\<lparr>is_read := is_read'\<rparr>
                          else notification)
                       (notifications s)\<rparr>
      in if is_read' then s1\<lparr>unreadCount := max 0 (unreadCount s1 - 1)\<rparr> else s1)"

subsection \<open>The asynchronous actions\<close>

text \<open>
  Each action reads the token, and \<^verbatim>\<open>markAsRead\<close> also \<^verbatim>\<open>socket\<close> and
  \<^verbatim>\<open>isConnected\<close>; the model reads the two cells from the state the action runs in.
  Each returns the promise its caller gets together with the state it leaves.

  \<^verbatim>\<open>!token\<close> holds when \<^verbatim>\<open>localStorage\<close> has no token and when the stored
  token is the empty string.
\<close>

definition no_token :: "string option \<Rightarrow> bool" where
  "no_token token = (case token of None \<Rightarrow> True | Some t \<Rightarrow> t = [])"

definition fetchNotifications_try ::
  "string option \<Rightarrow> page fetch_result \<Rightarrow> sync_state \<Rightarrow> sync_state attempt" where
  "fetchNotifications_try token response s =
     (if no_token token then Completes s
      else
        (let s1 = s\<lparr>requests := requests s @ [Get_notifications (the token)]\<rparr>
         in case response of
              Network_error e \<Rightarrow> Throws e s1
            | Not_ok \<Rightarrow> Throws ''Failed to fetch notifications'' s1
            | Ok data \<Rightarrow>
                Completes (s1\<lparr>notifications := items data, unreadCount := unread_count data\<rparr>)))"

definition fetchNotifications ::
  "string option \<Rightarrow> page fetch_result \<Rightarrow> sync_state \<Rightarrow> promise \<times> sync_state" where
  "fetchNotifications token response s =
     catch_console_error ''Error fetching notifications:'' (fetchNotifications_try token response s)"

definition markAsRead_try ::
  "string option \<Rightarrow> unit fetch_result \<Rightarrow> nat \<Rightarrow> sync_state \<Rightarrow> sync_state attempt" where
  "markAsRead_try token response notificationId s =
     (if no_token token then Completes s
      else if socket s \<noteq> None \<and> isConnected s
      then Completes (s\<lparr>sent := sent s @ [Mark_read notificationId]\<rparr>)
      else
        (let s1 = s\<lparr>requests := requests s @ [Put_notification notificationId (the token)]\<rparr>
         in case response of
              Network_error e \<Rightarrow> Throws e s1
            | Not_ok \<Rightarrow> Throws ''Failed to mark notification as read'' s1
            | Ok _ \<Rightarrow>
                Completes
                  (s1\<lparr>notifications :=
                        map (\<lambda>notification.
                               if nid notification = notificationId
                               then notification\<lparr>is_read := True\<rparr>
                               else notification)
                            (notifications s1),
                      unreadCount := max 0 (unreadCount s1 - 1)\<rparr>)))"

definition markAsRead ::
  "string option \<Rightarrow> unit fetch_result \<Rightarrow> nat \<Rightarrow> sync_state \<Rightarrow> promise \<times> sync_state" where
  "markAsRead token response notificationId s =
     catch_console_error ''Error marking notification as read:''
       (markAsRead_try token response notificationId s)"

definition markAllAsRead_try ::
  "string option \<Rightarrow> unit fetch_result \<Rightarrow> sync_state \<Rightarrow> sync_state attempt" where
  "markAllAsRead_try token response s =
     (if no_token token then Completes s
      else
        (let s1 = s\<lparr>requests := requests s @ [Put_mark_all_read (the token)]\<rparr>
         in case response of
              Network_error e \<Rightarrow> Throws e s1
            | Not_ok \<Rightarrow> Throws ''Failed to mark all notifications as read'' s1
            | Ok _ \<Rightarrow>
                Completes
                  (s1\<lparr>notifications :=
                        map (\<lambda>notification. notification\<lparr>is_read := True\<rparr>) (notifications s1),
                      unreadCount := 0\<rparr>)))"

definition markAllAsRead ::
  "string option \<Rightarrow> unit fetch_result \<Rightarrow> sync_state \<Rightarrow> promise \<times> sync_state" where
  "markAllAsRead token response s =
     catch_console_error ''Error marking all notifications as read:''
       (markAllAsRead_try token response s)"

subsection \<open>The socket and its handlers\<close>

text \<open>
  \<^verbatim>\<open>connectWebSocket\<close> returns at once without a stored token; otherwise it constructs a
  socket for that token and installs the four handlers below. The handlers run when the
  browser delivers the corresponding event on that socket.
\<close>

definition connectWebSocket :: "string option \<Rightarrow> sync_state \<Rightarrow> sync_state" where
  "connectWebSocket token s =
     (if no_token token then s else s\<lparr>ws_created := ws_created s @ [the token]\<rparr>)"

text \<open>
  \<^verbatim>\<open>onopen\<close>: \<^verbatim>\<open>newSocket\<close> is the socket the handler belongs to; the token and the
  response are what the call of \<^verbatim>\<open>fetchNotifications\<close> inside it meets. The handler
  does not look at the promise.
\<close>

definition onopen :: "nat \<Rightarrow> string option \<Rightarrow> page fetch_result \<Rightarrow> sync_state \<Rightarrow> sync_state" where
  "onopen newSocket token response s =
     snd (fetchNotifications token response (s\<lparr>isConnected := True, socket := Some newSocket\<rparr>))"

definition onmessage :: "ws_data \<Rightarrow> sync_state \<Rightarrow> sync_state" where
  "onmessage event_data s =
     (case event_data of
        Unparseable e \<Rightarrow>
          s\<lparr>console_errors := console_errors s @ [(''Error parsing WebSocket message:'', e)]\<rparr>
      | Parsed data \<Rightarrow>
          if msg_type data = ''notification'' then handleNewNotification (msg_data data) s
          else if msg_type data = ''notification_updated'' then handleNotificationUpdate data s
          else s)"

text \<open>The delay passed to \<^verbatim>\<open>setTimeout\<close> in \<^verbatim>\<open>onclose\<close>, in milliseconds.\<close>

definition reconnect_delay :: nat where
  "reconnect_delay = 3000"

definition onclose :: "sync_state \<Rightarrow> sync_state" where
  "onclose s = s\<lparr>isConnected := False, socket := None, timers := timers s @ [reconnect_delay]\<rparr>"

text \<open>
  The callback given to \<^verbatim>\<open>setTimeout\<close>, run when the oldest pending timer fires.
  \<^verbatim>\<open>currentUser\<close> is the variable of the closure the callback was created in.
\<close>

definition reconnect_timer_fires :: "string option \<Rightarrow> string option \<Rightarrow> sync_state \<Rightarrow> sync_state" where
  "reconnect_timer_fires currentUser token s =
     (case timers s of
        [] \<Rightarrow> s
      | d # ds \<Rightarrow>
          (let s1 = s\<lparr>timers := ds\<rparr>
           in if currentUser \<noteq> None then connectWebSocket token s1 else s1))"

definition onerror :: "nat \<Rightarrow> string \<Rightarrow> sync_state \<Rightarrow> sync_state" where
  "onerror newSocket error s =
     s\<lparr>console_errors := console_errors s @ [(''WebSocket error:'', error)],
       ws_closed := ws_closed s @ [newSocket]\<rparr>"

text \<open>
  The effect on \<^verbatim>\<open>currentUser\<close>: its body connects when there is a user and no socket, and
  its cleanup, run when the user changes or the provider unmounts, closes the socket the
  effect's closure holds (\<^verbatim>\<open>captured_socket\<close>).
\<close>

definition effect_body :: "string option \<Rightarrow> nat option \<Rightarrow> string option \<Rightarrow> sync_state \<Rightarrow> sync_state" where
  "effect_body currentUser captured_socket token s =
     (if currentUser \<noteq> None \<and> captured_socket = None then connectWebSocket token s else s)"

definition effect_cleanup :: "nat option \<Rightarrow> sync_state \<Rightarrow> sync_state" where
  "effect_cleanup captured_socket s =
     (case captured_socket of
        None \<Rightarrow> s
      | Some w \<Rightarrow> s\<lparr>ws_closed := ws_closed s @ [w], socket := None, isConnected := False\<rparr>)"

subsection \<open>Runs of the provider\<close>

text \<open>One operation of the provider together with what it meets in its surroundings.\<close>

datatype sync_op =
    Op_message ws_data
  | Op_markAsRead "string option" "unit fetch_result" nat
  | Op_markAllAsRead "string option" "unit fetch_result"
  | Op_fetch "string option" "page fetch_result"
  | Op_open nat "string option" "page fetch_result"
  | Op_close
  | Op_error nat string
  | Op_timer "string option" "string option"
  | Op_effect "string option" "nat option" "string option"
  | Op_cleanup "nat option"

fun step :: "sync_state \<Rightarrow> sync_op \<Rightarrow> sync_state" where
  "step s (Op_message d) = onmessage d s"
| "step s (Op_markAsRead token response i) = snd (markAsRead token response i s)"
| "step s (Op_markAllAsRead token response) = snd (markAllAsRead token response s)"
| "step s (Op_fetch token response) = snd (fetchNotifications token response s)"
| "step s (Op_open w token response) = onopen w token response s"
| "step s Op_close = onclose s"
| "step s (Op_error w e) = onerror w e s"
| "step s (Op_timer currentUser token) = reconnect_timer_fires currentUser token s"
| "step s (Op_effect currentUser captured_socket token) = effect_body currentUser captured_socket token s"
| "step s (Op_cleanup captured_socket) = effect_cleanup captured_socket s"

fun run :: "sync_state \<Rightarrow> sync_op list \<Rightarrow> sync_state" where
  "run s [] = s"
| "run s (x # xs) = run (step s x) xs"

subsection \<open>Notions used in the statements\<close>

text \<open>The number of entries of a list whose read flag is false.\<close>

definition unread :: "notification list \<Rightarrow> int" where
  "unread ns = int (length (filter (\<lambda>n. \<not> is_read n) ns))"

text \<open>The counter agrees with the list.\<close>

definition counter_inv :: "sync_state \<Rightarrow> bool" where
  "counter_inv s = (unreadCount s = unread (notifications s))"

text \<open>The number of unread entries, respectively read entries, that carry a given identifier.\<close>

definition unread_with :: "nat \<Rightarrow> notification list \<Rightarrow> nat" where
  "unread_with i ns = length (filter (\<lambda>n. nid n = i \<and> \<not> is_read n) ns)"

definition read_with :: "nat \<Rightarrow> notification list \<Rightarrow> nat" where
  "read_with i ns = length (filter (\<lambda>n. nid n = i \<and> is_read n) ns)"

text \<open>The patch both mark-read paths apply to the list.\<close>

definition patch :: "nat \<Rightarrow> bool \<Rightarrow> notification list \<Rightarrow> notification list" where
  "patch i r ns = map (\<lambda>n. if nid n = i then n\<lparr>is_read := r\<rparr> else n) ns"

text \<open>States and messages for the concrete instances below.\<close>

definition entry :: "nat \<Rightarrow> bool \<Rightarrow> notification" where
  "entry i r = \<lparr>nid = i, is_read = r, payload = ''liked your post''\<rparr>"

definition offline :: "notification list \<Rightarrow> int \<Rightarrow> sync_state" where
  "offline ns c =
     \<lparr>notifications = ns, unreadCount = c, socket = None, isConnected = False,
      sent = [], requests = [], ws_created = [], ws_closed = [], timers = [],
      console_errors = []\<rparr>"

definition online :: "notification list \<Rightarrow> int \<Rightarrow> sync_state" where
  "online ns c = (offline ns c)\<lparr>socket := Some 1, isConnected := True\<rparr>"

definition updated_msg :: "nat \<Rightarrow> bool \<Rightarrow> ws_json" where
  "updated_msg i r =
     \<lparr>msg_type = ''notification_updated'', msg_data = entry 0 False,
      msg_notification_id = i, msg_is_read = r\<rparr>"

definition notification_msg :: "notification \<Rightarrow> ws_json" where
  "notification_msg n =
     \<lparr>msg_type = ''notification'', msg_data = n, msg_notification_id = 0, msg_is_read = False\<rparr>"

text \<open>
  An operation is admissible in a state when it is of a kind that keeps counter and list in
  step: a pushed notification that is unread; an update, or a successful mark-read over the
  pull transport, that names exactly one unread entry (an update with flag false: no read
  entry); a successful pull whose count is the number of unread items it returns. Every other
  operation is admissible.
\<close>

fun admissible :: "sync_state \<Rightarrow> sync_op \<Rightarrow> bool" where
  "admissible s (Op_message (Parsed data)) =
     (if msg_type data = ''notification'' then \<not> is_read (msg_data data)
      else if msg_type data = ''notification_updated'' then
        (if msg_is_read data
         then unread_with (msg_notification_id data) (notifications s) = 1
         else read_with (msg_notification_id data) (notifications s) = 0)
      else True)"
| "admissible s (Op_markAsRead token (Ok u) i) =
     (no_token token \<or> (socket s \<noteq> None \<and> isConnected s) \<or> unread_with i (notifications s) = 1)"
| "admissible s (Op_fetch token (Ok data)) =
     (no_token token \<or> unread_count data = unread (items data))"
| "admissible s (Op_open w token (Ok data)) =
     (no_token token \<or> unread_count data = unread (items data))"
| "admissible s _ = True"

fun admissible_run :: "sync_state \<Rightarrow> sync_op list \<Rightarrow> bool" where
  "admissible_run s [] = True"
| "admissible_run s (x # xs) = (admissible s x \<and> admissible_run (step s x) xs)"

text \<open>The count a successful pull brings from the server is not negative.\<close>

fun server_count_nonneg :: "sync_op \<Rightarrow> bool" where
  "server_count_nonneg (Op_fetch token (Ok data)) = (0 \<le> unread_count data)"
| "server_count_nonneg (Op_open w token (Ok data)) = (0 \<le> unread_count data)"
| "server_count_nonneg _ = True"

text \<open>A frame with a tag the handler does not know, and a page of the list endpoint.\<close>

definition resync_msg :: ws_json where
  "resync_msg = (updated_msg 1 True)\<lparr>msg_type := ''resync''\<rparr>"

definition server_page :: "notification list \<Rightarrow> int \<Rightarrow> page" where
  "server_page ns c = \<lparr>items = ns, unread_count = c\<rparr>"

section \<open>Basic facts\<close>

text \<open>The definitions of the three actions, unfolded together.\<close>

lemmas action_defs =
  markAsRead_def markAsRead_try_def markAllAsRead_def markAllAsRead_try_def
  fetchNotifications_def fetchNotifications_try_def catch_console_error_def

lemma handleNotificationUpdate_list:
  "notifications (handleNotificationUpdate data s) =
     patch (msg_notification_id data) (msg_is_read data) (notifications s)"
  by (simp add: handleNotificationUpdate_def patch_def Let_def)

lemma handleNotificationUpdate_count:
  "unreadCount (handleNotificationUpdate data s) =
     (if msg_is_read data then max 0 (unreadCount s - 1) else unreadCount s)"
  by (simp add: handleNotificationUpdate_def Let_def)

lemma patch_absent: "i \<notin> nid ` set ns \<Longrightarrow> patch i r ns = ns"
  by (induction ns) (auto simp: patch_def)

lemma length_patch: "length (patch i r ns) = length ns"
  by (simp add: patch_def)

lemma map_nid_patch: "map nid (patch i r ns) = map nid ns"
  by (simp add: patch_def)

lemma map_payload_patch: "map payload (patch i r ns) = map payload ns"
  by (simp add: patch_def)

lemma nth_patch:
  "k < length ns \<Longrightarrow>
     patch i r ns ! k = (if nid (ns ! k) = i then (ns ! k)\<lparr>is_read := r\<rparr> else ns ! k)"
  by (simp add: patch_def)

lemma patch_idem: "patch i r (patch i r ns) = patch i r ns"
  by (induction ns) (auto simp: patch_def)

lemma clamp_twice: "max 0 (max 0 (c - 1) - 1) = max (0::int) (c - 2)"
  by auto

lemma markAsRead_pull_list:
  "\<not> no_token token \<Longrightarrow> \<not> (socket s \<noteq> None \<and> isConnected s) \<Longrightarrow>
     notifications (snd (markAsRead token (Ok u) i s)) = patch i True (notifications s)"
  by (auto simp add: markAsRead_def markAsRead_try_def catch_console_error_def patch_def Let_def)

lemma markAsRead_pull_count:
  "\<not> no_token token \<Longrightarrow> \<not> (socket s \<noteq> None \<and> isConnected s) \<Longrightarrow>
     unreadCount (snd (markAsRead token (Ok u) i s)) = max 0 (unreadCount s - 1)"
  by (auto simp add: markAsRead_def markAsRead_try_def catch_console_error_def Let_def)

section \<open>Counter and list\<close>

lemma unread_nonneg: "0 \<le> unread ns"
  by (simp add: unread_def)

lemma unread_with_le: "int (unread_with i ns) \<le> unread ns"
proof -
  have "length (filter (\<lambda>n. nid n = i \<and> \<not> is_read n) ns) \<le> length (filter (\<lambda>n. \<not> is_read n) ns)"
    by (induction ns) auto
  then show ?thesis by (simp add: unread_with_def unread_def)
qed

lemma unread_patch_True: "unread (patch i True ns) = unread ns - int (unread_with i ns)"
proof (induction ns)
  case Nil
  then show ?case by (simp add: unread_def patch_def unread_with_def)
next
  case (Cons n ns)
  then show ?case by (simp add: unread_def patch_def unread_with_def)
qed

lemma unread_patch_False: "unread (patch i False ns) = unread ns + int (read_with i ns)"
  by (induction ns) (simp_all add: unread_def patch_def read_with_def)

lemma unread_all_read: "unread (map (\<lambda>n. n\<lparr>is_read := True\<rparr>) ns) = 0"
  by (induction ns) (simp_all add: unread_def)

lemma update_keeps_inv:
  assumes "counter_inv s"
    and "if msg_is_read data
         then unread_with (msg_notification_id data) (notifications s) = 1
         else read_with (msg_notification_id data) (notifications s) = 0"
  shows "counter_inv (handleNotificationUpdate data s)"
proof (cases "msg_is_read data")
  case True
  with assms(2) have one: "unread_with (msg_notification_id data) (notifications s) = 1" by simp
  with unread_with_le [of "msg_notification_id data" "notifications s"]
  have "1 \<le> unread (notifications s)" by simp
  with assms(1) one True show ?thesis
    by (simp add: counter_inv_def handleNotificationUpdate_list handleNotificationUpdate_count
        unread_patch_True)
next
  case False
  with assms show ?thesis
    by (simp add: counter_inv_def handleNotificationUpdate_list handleNotificationUpdate_count
        unread_patch_False)
qed

lemma markAsRead_keeps_inv:
  assumes "counter_inv s"
    and "no_token token \<or> (socket s \<noteq> None \<and> isConnected s) \<or> unread_with i (notifications s) = 1"
  shows "counter_inv (snd (markAsRead token (Ok u) i s))"
proof (cases "no_token token \<or> (socket s \<noteq> None \<and> isConnected s)")
  case True
  with assms(1) show ?thesis
    by (auto simp add: counter_inv_def action_defs)
next
  case False
  with assms(2) have one: "unread_with i (notifications s) = 1" by blast
  with unread_with_le [of i "notifications s"] have "1 \<le> unread (notifications s)" by simp
  with False assms(1) one show ?thesis
    by (simp add: counter_inv_def markAsRead_pull_list markAsRead_pull_count unread_patch_True)
qed

lemma failed_action_keeps_inv:
  assumes "counter_inv s" and "\<And>b. response \<noteq> Ok b"
  shows "counter_inv (snd (markAsRead token response i s))"
    and "counter_inv (snd (markAllAsRead token response s))"
  using assms by (cases response; simp add: counter_inv_def action_defs Let_def)+

lemma failed_fetch_keeps_inv:
  assumes "counter_inv s" and "\<And>b. response \<noteq> Ok b"
  shows "counter_inv (snd (fetchNotifications token response s))"
  using assms by (cases response; simp add: counter_inv_def action_defs Let_def)

lemma markAllAsRead_keeps_inv:
  "counter_inv s \<Longrightarrow> counter_inv (snd (markAllAsRead token response s))"
  by (cases response) (simp_all add: counter_inv_def action_defs Let_def unread_all_read)

lemma fetch_keeps_inv:
  assumes "counter_inv s" and "no_token token \<or> unread_count data = unread (items data)"
  shows "counter_inv (snd (fetchNotifications token (Ok data) s))"
  using assms by (auto simp add: counter_inv_def action_defs Let_def)

lemma step_keeps_inv:
  assumes "counter_inv s" and "admissible s x"
  shows "counter_inv (step s x)"
proof (cases x)
  case (Op_message d)
  show ?thesis
  proof (cases d)
    case (Unparseable e)
    with Op_message assms(1) show ?thesis by (simp add: onmessage_def counter_inv_def)
  next
    case (Parsed data)
    consider (new) "msg_type data = ''notification''"
      | (upd) "msg_type data \<noteq> ''notification''" "msg_type data = ''notification_updated''"
      | (other) "msg_type data \<noteq> ''notification''" "msg_type data \<noteq> ''notification_updated''"
      by blast
    then show ?thesis
    proof cases
      case new
      with Op_message Parsed assms show ?thesis
        by (simp add: onmessage_def handleNewNotification_def counter_inv_def unread_def)
    next
      case upd
      with Op_message Parsed assms show ?thesis
        by (simp add: onmessage_def update_keeps_inv)
    next
      case other
      with Op_message Parsed assms(1) show ?thesis
        by (simp add: onmessage_def)
    qed
  qed
next
  case (Op_markAsRead token response i)
  with assms show ?thesis
    by (cases response) (simp_all add: markAsRead_keeps_inv failed_action_keeps_inv)
next
  case (Op_markAllAsRead token response)
  with assms(1) show ?thesis by (simp add: markAllAsRead_keeps_inv)
next
  case (Op_fetch token response)
  with assms show ?thesis
    by (cases response) (simp_all add: fetch_keeps_inv failed_fetch_keeps_inv)
next
  case (Op_open w token response)
  have pre: "counter_inv (s\<lparr>isConnected := True, socket := Some w\<rparr>)"
    using assms(1) by (simp add: counter_inv_def)
  from Op_open assms(2) show ?thesis
    by (cases response) (simp_all add: onopen_def fetch_keeps_inv [OF pre] failed_fetch_keeps_inv [OF pre])
next
  case Op_close
  with assms(1) show ?thesis by (simp add: onclose_def counter_inv_def)
next
  case (Op_error w e)
  with assms(1) show ?thesis by (simp add: onerror_def counter_inv_def)
next
  case (Op_timer cu token)
  with assms(1) show ?thesis
    by (simp add: reconnect_timer_fires_def connectWebSocket_def Let_def counter_inv_def
        split: list.splits)
next
  case (Op_effect cu w token)
  with assms(1) show ?thesis by (simp add: effect_body_def connectWebSocket_def counter_inv_def)
next
  case (Op_cleanup w)
  with assms(1) show ?thesis by (simp add: effect_cleanup_def counter_inv_def split: option.splits)
qed

lemma step_counter_cases:
  "unreadCount (step s x) = unreadCount s
   \<or> unreadCount (step s x) = unreadCount s + 1
   \<or> unreadCount (step s x) = max 0 (unreadCount s - 1)
   \<or> unreadCount (step s x) = 0
   \<or> (\<exists>w token data. (x = Op_fetch token (Ok data) \<or> x = Op_open w token (Ok data))
         \<and> unreadCount (step s x) = unread_count data)"
proof (cases x)
  case (Op_message d)
  then show ?thesis
    by (cases d) (simp_all add: onmessage_def handleNewNotification_def handleNotificationUpdate_count)
next
  case (Op_markAsRead token response i)
  then show ?thesis
    by (cases response) (simp_all add: action_defs Let_def)
next
  case (Op_markAllAsRead token response)
  then show ?thesis
    by (cases response) (simp_all add: action_defs Let_def)
next
  case (Op_fetch token response)
  then show ?thesis
    by (cases response) (simp_all add: action_defs Let_def)
next
  case (Op_open w token response)
  then show ?thesis
    by (cases response) (simp_all add: onopen_def action_defs Let_def)
next
  case Op_close
  then show ?thesis by (simp add: onclose_def)
next
  case (Op_error w e)
  then show ?thesis by (simp add: onerror_def)
next
  case (Op_timer cu token)
  then show ?thesis
    by (simp add: reconnect_timer_fires_def connectWebSocket_def Let_def split: list.splits)
next
  case (Op_effect cu w token)
  then show ?thesis by (simp add: effect_body_def connectWebSocket_def)
next
  case (Op_cleanup w)
  then show ?thesis by (simp add: effect_cleanup_def split: option.splits)
qed

lemma step_nonneg:
  assumes "0 \<le> unreadCount s" and "server_count_nonneg x"
  shows "0 \<le> unreadCount (step s x)"
proof -
  from step_counter_cases [of s x]
  consider "unreadCount (step s x) = unreadCount s"
    | "unreadCount (step s x) = unreadCount s + 1"
    | "unreadCount (step s x) = max 0 (unreadCount s - 1)"
    | "unreadCount (step s x) = 0"
    | w token data where "x = Op_fetch token (Ok data) \<or> x = Op_open w token (Ok data)"
        "unreadCount (step s x) = unread_count data"
    by blast
  then show ?thesis
  proof cases
    case 5
    with assms(2) show ?thesis by auto
  qed (use assms(1) in simp_all)
qed

section \<open>Claims\<close>

text \<open>
  C9. A \<^verbatim>\<open>notification_updated\<close> message with read flag true whose identifier matches
  no entry of the local list leaves the list as it is and still lowers the counter by one,
  not below zero.
\<close>

theorem update_unknown_id_still_decrements:
  assumes "msg_is_read data"
    and "msg_notification_id data \<notin> nid ` set (notifications s)"
  shows "notifications (handleNotificationUpdate data s) = notifications s
       \<and> unreadCount (handleNotificationUpdate data s) = max 0 (unreadCount s - 1)"
  using assms
  by (simp add: handleNotificationUpdate_list handleNotificationUpdate_count patch_absent)

theorem update_unknown_id_still_decrements_witness:
  "msg_is_read (updated_msg 9 True)
   \<and> msg_notification_id (updated_msg 9 True) \<notin> nid ` set (notifications (online [entry 1 False, entry 2 False] 2))
   \<and> notifications (handleNotificationUpdate (updated_msg 9 True) (online [entry 1 False, entry 2 False] 2))
       = [entry 1 False, entry 2 False]
   \<and> unreadCount (handleNotificationUpdate (updated_msg 9 True) (online [entry 1 False, entry 2 False] 2)) = 1"
proof -
  have a: "msg_is_read (updated_msg 9 True)"
    by (simp add: updated_msg_def)
  have b: "msg_notification_id (updated_msg 9 True)
             \<notin> nid ` set (notifications (online [entry 1 False, entry 2 False] 2))"
    by (simp add: updated_msg_def online_def offline_def entry_def)
  show ?thesis
    using a b update_unknown_id_still_decrements [OF a b]
    by (simp add: online_def offline_def)
qed

text \<open>
  C2, as amended. A \<^verbatim>\<open>notification_updated\<close> message sets the read flag of every
  entry carrying its identifier to the flag of the message, in place: the list keeps its
  length, every other entry and every other field stays as it was. The counter is lowered by
  one, not below zero, exactly when the flag of the message is true, whatever the flag of the
  entry was before.
\<close>

theorem update_patches_in_place_counter_follows_message:
  "length (notifications (handleNotificationUpdate data s)) = length (notifications s)
   \<and> (\<forall>k < length (notifications s).
        notifications (handleNotificationUpdate data s) ! k =
          (if nid (notifications s ! k) = msg_notification_id data
           then (notifications s ! k)\<lparr>is_read := msg_is_read data\<rparr>
           else notifications s ! k))
   \<and> unreadCount (handleNotificationUpdate data s) =
        (if msg_is_read data then max 0 (unreadCount s - 1) else unreadCount s)"
  by (simp add: handleNotificationUpdate_list handleNotificationUpdate_count length_patch nth_patch)

theorem update_patches_in_place_counter_follows_message_witness:
  "length (notifications (handleNotificationUpdate (updated_msg 2 True)
      (online [entry 1 False, entry 2 False, entry 3 True] 2))) = 3
   \<and> notifications (handleNotificationUpdate (updated_msg 2 True)
      (online [entry 1 False, entry 2 False, entry 3 True] 2)) ! 0 = entry 1 False
   \<and> notifications (handleNotificationUpdate (updated_msg 2 True)
      (online [entry 1 False, entry 2 False, entry 3 True] 2)) ! 1 = entry 2 True
   \<and> notifications (handleNotificationUpdate (updated_msg 2 True)
      (online [entry 1 False, entry 2 False, entry 3 True] 2)) ! 2 = entry 3 True
   \<and> unreadCount (handleNotificationUpdate (updated_msg 2 True)
      (online [entry 1 False, entry 2 False, entry 3 True] 2)) = 1"
  using update_patches_in_place_counter_follows_message
    [of "updated_msg 2 True" "online [entry 1 False, entry 2 False, entry 3 True] 2"]
  by (simp add: online_def offline_def entry_def updated_msg_def All_less_Suc numeral_3_eq_3 numeral_2_eq_2)

text \<open>
  The claim as written fails: the first entry is already read, the message names it, and the
  counter still drops from 1 to 0.
\<close>

theorem update_decrements_for_entry_already_read:
  "is_read (notifications (online [entry 1 True, entry 2 False] 1) ! 0)
   \<and> nid (notifications (online [entry 1 True, entry 2 False] 1) ! 0)
       = msg_notification_id (updated_msg 1 True)
   \<and> unreadCount (online [entry 1 True, entry 2 False] 1) = 1
   \<and> unreadCount (handleNotificationUpdate (updated_msg 1 True)
        (online [entry 1 True, entry 2 False] 1)) = 0"
  by (simp add: handleNotificationUpdate_count online_def offline_def entry_def updated_msg_def)

text \<open>
  C3, as amended. With a token stored and no live socket, a successful mark-read over the
  pull transport followed by the \<^verbatim>\<open>notification_updated\<close> message for the same
  identifier gives the list that either of the two gives alone, and a counter lowered twice:
  \<open>max 0 (c - 2)\<close>, where each of the two alone gives \<open>max 0 (c - 1)\<close>.
\<close>

theorem pull_mark_read_then_broadcast_decrements_twice:
  assumes "\<not> no_token token" and "\<not> (socket s \<noteq> None \<and> isConnected s)"
    and "msg_notification_id data = i" and "msg_is_read data"
  shows "notifications (handleNotificationUpdate data (snd (markAsRead token (Ok u) i s)))
           = notifications (snd (markAsRead token (Ok u) i s))
       \<and> notifications (handleNotificationUpdate data (snd (markAsRead token (Ok u) i s)))
           = notifications (handleNotificationUpdate data s)
       \<and> unreadCount (snd (markAsRead token (Ok u) i s)) = max 0 (unreadCount s - 1)
       \<and> unreadCount (handleNotificationUpdate data s) = max 0 (unreadCount s - 1)
       \<and> unreadCount (handleNotificationUpdate data (snd (markAsRead token (Ok u) i s)))
           = max 0 (unreadCount s - 2)"
  using assms
  by (simp add: handleNotificationUpdate_list handleNotificationUpdate_count
      markAsRead_pull_list markAsRead_pull_count patch_idem clamp_twice)

theorem pull_mark_read_then_broadcast_decrements_twice_witness:
  "\<not> no_token (Some ''tok'')
   \<and> \<not> (socket (offline [entry 1 False, entry 2 False, entry 3 False] 3) \<noteq> None
        \<and> isConnected (offline [entry 1 False, entry 2 False, entry 3 False] 3))
   \<and> msg_notification_id (updated_msg 2 True) = 2 \<and> msg_is_read (updated_msg 2 True)
   \<and> notifications (handleNotificationUpdate (updated_msg 2 True)
        (snd (markAsRead (Some ''tok'') (Ok ()) 2 (offline [entry 1 False, entry 2 False, entry 3 False] 3))))
       = [entry 1 False, entry 2 True, entry 3 False]
   \<and> unreadCount (handleNotificationUpdate (updated_msg 2 True)
        (snd (markAsRead (Some ''tok'') (Ok ()) 2 (offline [entry 1 False, entry 2 False, entry 3 False] 3))))
       = 1"
proof -
  have a: "\<not> no_token (Some ''tok'')"
    by (simp add: no_token_def)
  have b: "\<not> (socket (offline [entry 1 False, entry 2 False, entry 3 False] 3) \<noteq> None
        \<and> isConnected (offline [entry 1 False, entry 2 False, entry 3 False] 3))"
    by (simp add: offline_def)
  have c: "msg_notification_id (updated_msg 2 True) = 2"
    by (simp add: updated_msg_def)
  have d: "msg_is_read (updated_msg 2 True)"
    by (simp add: updated_msg_def)
  show ?thesis
    using a b c d pull_mark_read_then_broadcast_decrements_twice [OF a b c d, of "()"]
    by (simp add: markAsRead_def markAsRead_try_def catch_console_error_def no_token_def Let_def
        offline_def entry_def)
qed

text \<open>
  The claim as written fails: with two unread entries and a counter of 2, either delivery
  alone leaves 1, both leave 0.
\<close>

theorem second_delivery_decrements_again:
  "unreadCount (snd (markAsRead (Some ''tok'') (Ok ()) 1 (offline [entry 1 False, entry 2 False] 2))) = 1
 \<and> unreadCount (handleNotificationUpdate (updated_msg 1 True) (offline [entry 1 False, entry 2 False] 2)) = 1
 \<and> unreadCount (handleNotificationUpdate (updated_msg 1 True)
      (snd (markAsRead (Some ''tok'') (Ok ()) 1 (offline [entry 1 False, entry 2 False] 2)))) = 0"
  by (simp add: handleNotificationUpdate_count markAsRead_def markAsRead_try_def catch_console_error_def
      no_token_def offline_def updated_msg_def Let_def)

text \<open>
  C1, as amended. Started in a state whose counter is the number of unread entries of its
  list, the provider is in such a state again after every run of admissible operations: a
  pushed notification that is unread; an update, or a successful mark-read over the pull
  transport, that names exactly one unread entry; mark-all-read; a failed request; a
  successful pull whose count is the number of unread items it returns.
\<close>

theorem counter_matches_list_on_admissible_runs:
  assumes "counter_inv s" and "admissible_run s ops"
  shows "counter_inv (run s ops)"
  using assms
proof (induction ops arbitrary: s)
  case Nil
  then show ?case by simp
next
  case (Cons x xs)
  then show ?case by (simp add: step_keeps_inv)
qed

theorem counter_matches_list_on_admissible_runs_witness:
  "counter_inv (offline [entry 1 False] 1)
   \<and> admissible_run (offline [entry 1 False] 1)
        [Op_message (Parsed (notification_msg (entry 2 False))),
         Op_message (Parsed (updated_msg 1 True)),
         Op_markAsRead (Some ''tok'') (Ok ()) 2,
         Op_markAllAsRead (Some ''tok'') Not_ok,
         Op_fetch (Some ''tok'') (Ok (server_page [entry 3 False, entry 2 True] 1)),
         Op_markAllAsRead (Some ''tok'') (Ok ())]
   \<and> counter_inv (run (offline [entry 1 False] 1)
        [Op_message (Parsed (notification_msg (entry 2 False))),
         Op_message (Parsed (updated_msg 1 True)),
         Op_markAsRead (Some ''tok'') (Ok ()) 2,
         Op_markAllAsRead (Some ''tok'') Not_ok,
         Op_fetch (Some ''tok'') (Ok (server_page [entry 3 False, entry 2 True] 1)),
         Op_markAllAsRead (Some ''tok'') (Ok ())])"
proof -
  have a: "counter_inv (offline [entry 1 False] 1)"
    by (simp add: counter_inv_def unread_def offline_def entry_def)
  have b: "admissible_run (offline [entry 1 False] 1)
        [Op_message (Parsed (notification_msg (entry 2 False))),
         Op_message (Parsed (updated_msg 1 True)),
         Op_markAsRead (Some ''tok'') (Ok ()) 2,
         Op_markAllAsRead (Some ''tok'') Not_ok,
         Op_fetch (Some ''tok'') (Ok (server_page [entry 3 False, entry 2 True] 1)),
         Op_markAllAsRead (Some ''tok'') (Ok ())]"
    by (simp add: onmessage_def handleNewNotification_def handleNotificationUpdate_def action_defs
        no_token_def unread_with_def read_with_def unread_def notification_msg_def updated_msg_def
        server_page_def offline_def entry_def Let_def)
  from a b counter_matches_list_on_admissible_runs [OF a b] show ?thesis
    by simp
qed

text \<open>
  The claim as written fails: a mark-read over the pull transport and the broadcast for the
  same identifier bring the counter to 0 while one entry is still unread.
\<close>

theorem counter_drifts_from_list:
  "counter_inv (offline [entry 1 False, entry 2 False] 2)
   \<and> \<not> counter_inv (run (offline [entry 1 False, entry 2 False] 2)
          [Op_markAsRead (Some ''tok'') (Ok ()) 1, Op_message (Parsed (updated_msg 1 True))])"
  by (simp add: counter_inv_def unread_def handleNotificationUpdate_count handleNotificationUpdate_list
      patch_def onmessage_def action_defs no_token_def offline_def updated_msg_def entry_def Let_def)

text \<open>
  C4, as amended. The open handler, in whatever state the provider is, marks the provider
  connected and calls the pull. The pull is made when a token is stored: then the request for
  the list is issued, and when it succeeds the list and the counter are the ones the server
  returned. Without a token no request is issued and the list and the counter stay as they
  were.
\<close>

theorem open_pulls_when_token_stored:
  "socket (onopen w token response s) = Some w
   \<and> isConnected (onopen w token response s)
   \<and> (\<not> no_token token \<longrightarrow>
        requests (onopen w token response s) = requests s @ [Get_notifications (the token)]
        \<and> notifications (onopen w token (Ok data) s) = items data
        \<and> unreadCount (onopen w token (Ok data) s) = unread_count data)
   \<and> (no_token token \<longrightarrow>
        requests (onopen w token response s) = requests s
        \<and> notifications (onopen w token response s) = notifications s
        \<and> unreadCount (onopen w token response s) = unreadCount s)"
  by (cases response) (simp_all add: onopen_def action_defs Let_def)

theorem open_pulls_when_token_stored_witness:
  "requests (onopen 7 (Some ''tok'') (Ok (server_page [entry 4 False] 1)) (offline [entry 3 True, entry 2 False] 5))
       = [Get_notifications ''tok'']
   \<and> notifications (onopen 7 (Some ''tok'') (Ok (server_page [entry 4 False] 1)) (offline [entry 3 True, entry 2 False] 5))
       = [entry 4 False]
   \<and> unreadCount (onopen 7 (Some ''tok'') (Ok (server_page [entry 4 False] 1)) (offline [entry 3 True, entry 2 False] 5))
       = 1
   \<and> socket (onopen 7 (Some ''tok'') (Ok (server_page [entry 4 False] 1)) (offline [entry 3 True, entry 2 False] 5))
       = Some 7
   \<and> notifications (onopen 7 None (Ok (server_page [entry 4 False] 1)) (offline [entry 3 True, entry 2 False] 5))
       = [entry 3 True, entry 2 False]"
proof -
  have a: "\<not> no_token (Some ''tok'')" and b: "no_token None"
    by (simp_all add: no_token_def)
  have c: "requests (offline [entry 3 True, entry 2 False] 5) = []"
    and d: "notifications (offline [entry 3 True, entry 2 False] 5) = [entry 3 True, entry 2 False]"
    by (simp_all add: offline_def)
  note t = open_pulls_when_token_stored [of 7 "Some ''tok''" "Ok (server_page [entry 4 False] 1)"
      "offline [entry 3 True, entry 2 False] 5" "server_page [entry 4 False] 1"]
  note u = open_pulls_when_token_stored [of 7 None "Ok (server_page [entry 4 False] 1)"
      "offline [entry 3 True, entry 2 False] 5" "server_page [entry 4 False] 1"]
  from t a c have "requests (onopen 7 (Some ''tok'') (Ok (server_page [entry 4 False] 1))
        (offline [entry 3 True, entry 2 False] 5)) = [Get_notifications ''tok'']"
    by simp
  moreover from t a have "notifications (onopen 7 (Some ''tok'') (Ok (server_page [entry 4 False] 1))
        (offline [entry 3 True, entry 2 False] 5)) = [entry 4 False]"
    by (simp add: server_page_def)
  moreover from t a have "unreadCount (onopen 7 (Some ''tok'') (Ok (server_page [entry 4 False] 1))
        (offline [entry 3 True, entry 2 False] 5)) = 1"
    by (simp add: server_page_def)
  moreover from t have "socket (onopen 7 (Some ''tok'') (Ok (server_page [entry 4 False] 1))
        (offline [entry 3 True, entry 2 False] 5)) = Some 7"
    by simp
  moreover from u b d have "notifications (onopen 7 None (Ok (server_page [entry 4 False] 1))
        (offline [entry 3 True, entry 2 False] 5)) = [entry 3 True, entry 2 False]"
    by simp
  ultimately show ?thesis
    by blast
qed

text \<open>
  The claim as written fails: the socket opens when the token is gone, the provider is
  connected, and no request is issued; the list and the counter are the old ones, not the
  server's.
\<close>

theorem open_without_token_pulls_nothing:
  "isConnected (onopen 7 None (Ok (server_page [entry 4 False] 1)) (offline [entry 3 True, entry 2 False] 5))
   \<and> requests (onopen 7 None (Ok (server_page [entry 4 False] 1)) (offline [entry 3 True, entry 2 False] 5))
       = []
   \<and> notifications (onopen 7 None (Ok (server_page [entry 4 False] 1)) (offline [entry 3 True, entry 2 False] 5))
       = [entry 3 True, entry 2 False]
   \<and> unreadCount (onopen 7 None (Ok (server_page [entry 4 False] 1)) (offline [entry 3 True, entry 2 False] 5))
       = 5"
  by (simp add: onopen_def action_defs no_token_def offline_def)




text \<open>
  C6, as amended. When the request of mark-read or mark-all-read over the pull transport
  fails (the response is not ok, or the fetch rejects), the list and the counter stay as they
  were, the failure is caught inside the action and written to the console, and the promise
  the caller holds is fulfilled as it is after a success.
\<close>

theorem failed_mark_keeps_state_and_is_logged:
  assumes "response \<noteq> Ok ()"
  shows "notifications (snd (markAsRead token response i s)) = notifications s
       \<and> unreadCount (snd (markAsRead token response i s)) = unreadCount s
       \<and> notifications (snd (markAllAsRead token response s)) = notifications s
       \<and> unreadCount (snd (markAllAsRead token response s)) = unreadCount s
       \<and> fst (markAsRead token response i s) = Fulfilled
       \<and> fst (markAllAsRead token response s) = Fulfilled
       \<and> (\<not> no_token token \<and> \<not> (socket s \<noteq> None \<and> isConnected s) \<longrightarrow>
            length (console_errors (snd (markAsRead token response i s)))
              = Suc (length (console_errors s))
            \<and> fst (last (console_errors (snd (markAsRead token response i s))))
              = ''Error marking notification as read:'')
       \<and> (\<not> no_token token \<longrightarrow>
            length (console_errors (snd (markAllAsRead token response s)))
              = Suc (length (console_errors s))
            \<and> fst (last (console_errors (snd (markAllAsRead token response s))))
              = ''Error marking all notifications as read:'')"
  using assms by (cases response) (simp_all add: action_defs Let_def)

theorem failed_mark_keeps_state_and_is_logged_witness:
  "(Not_ok :: unit fetch_result) \<noteq> Ok ()
   \<and> notifications (snd (markAsRead (Some ''tok'') Not_ok 1 (offline [entry 1 False] 1))) = [entry 1 False]
   \<and> unreadCount (snd (markAsRead (Some ''tok'') Not_ok 1 (offline [entry 1 False] 1))) = 1
   \<and> console_errors (snd (markAsRead (Some ''tok'') Not_ok 1 (offline [entry 1 False] 1)))
       = [(''Error marking notification as read:'', ''Failed to mark notification as read'')]
   \<and> unreadCount (snd (markAllAsRead (Some ''tok'') Not_ok (offline [entry 1 False] 1))) = 1"
proof -
  have a: "(Not_ok :: unit fetch_result) \<noteq> Ok ()"
    by simp
  from a failed_mark_keeps_state_and_is_logged
      [OF a, of "Some ''tok''" 1 "offline [entry 1 False] 1"]
  show ?thesis
    by (simp add: action_defs no_token_def offline_def Let_def)
qed

text \<open>
  The claim as written fails where it has the failure surfaced to the caller: after a
  response that is not ok and after a network error the promise is fulfilled, as after a
  success.
\<close>

theorem failed_mark_fulfils_promise:
  "fst (markAsRead (Some ''tok'') Not_ok 1 (offline [entry 1 False] 1)) = Fulfilled
   \<and> fst (markAsRead (Some ''tok'') (Network_error ''Failed to fetch'') 1 (offline [entry 1 False] 1))
       = Fulfilled
   \<and> fst (markAsRead (Some ''tok'') (Ok ()) 1 (offline [entry 1 False] 1)) = Fulfilled
   \<and> fst (markAllAsRead (Some ''tok'') Not_ok (offline [entry 1 False] 1)) = Fulfilled"
  by (simp add: action_defs no_token_def offline_def Let_def)

text \<open>
  C7, as amended. A frame that does not decode is written to the console and changes
  nothing else: list, counter and socket stay as they were. A decoded frame whose tag is
  neither \<^verbatim>\<open>notification\<close> nor \<^verbatim>\<open>notification_updated\<close> is dropped: the state,
  console included, is the one before.
\<close>

theorem undecodable_logged_unknown_tag_dropped:
  "onmessage (Unparseable e) s
     = s\<lparr>console_errors := console_errors s @ [(''Error parsing WebSocket message:'', e)]\<rparr>
   \<and> (msg_type data \<noteq> ''notification'' \<and> msg_type data \<noteq> ''notification_updated''
        \<longrightarrow> onmessage (Parsed data) s = s)"
  by (simp add: onmessage_def)

theorem undecodable_logged_unknown_tag_dropped_witness:
  "notifications (onmessage (Unparseable ''Unexpected token'') (online [entry 1 False] 1)) = [entry 1 False]
   \<and> unreadCount (onmessage (Unparseable ''Unexpected token'') (online [entry 1 False] 1)) = 1
   \<and> socket (onmessage (Unparseable ''Unexpected token'') (online [entry 1 False] 1)) = Some 1
   \<and> isConnected (onmessage (Unparseable ''Unexpected token'') (online [entry 1 False] 1))
   \<and> console_errors (onmessage (Unparseable ''Unexpected token'') (online [entry 1 False] 1))
       = [(''Error parsing WebSocket message:'', ''Unexpected token'')]
   \<and> onmessage (Parsed resync_msg) (online [entry 1 False] 1) = online [entry 1 False] 1"
  using undecodable_logged_unknown_tag_dropped
      [of "''Unexpected token''" "online [entry 1 False] 1" resync_msg]
  by (simp add: resync_msg_def updated_msg_def online_def offline_def)

text \<open>
  The claim as written fails where it has an unknown tag rejected as an error: a frame
  tagged \<^verbatim>\<open>resync\<close> leaves the state as it was, with nothing on the console.
\<close>

theorem unknown_tag_signals_nothing:
  "msg_type resync_msg \<noteq> ''notification'' \<and> msg_type resync_msg \<noteq> ''notification_updated''
   \<and> console_errors (online [entry 1 False] 1) = []
   \<and> onmessage (Parsed resync_msg) (online [entry 1 False] 1) = online [entry 1 False] 1"
  by (simp add: onmessage_def resync_msg_def updated_msg_def online_def offline_def)

text \<open>
  C8, as amended. With a socket present and connected, mark-read sends one
  \<^verbatim>\<open>mark_read\<close> frame when a token is stored and nothing without one. In either case
  no request is issued, and the list and the counter are the ones before. They change when
  the \<^verbatim>\<open>notification_updated\<close> message is handled afterwards.
\<close>

theorem connected_mark_read_only_sends:
  assumes "socket s \<noteq> None" and "isConnected s"
  shows "snd (markAsRead token response i s)
           = (if no_token token then s else s\<lparr>sent := sent s @ [Mark_read i]\<rparr>)
       \<and> notifications (snd (markAsRead token response i s)) = notifications s
       \<and> unreadCount (snd (markAsRead token response i s)) = unreadCount s
       \<and> requests (snd (markAsRead token response i s)) = requests s
       \<and> notifications (handleNotificationUpdate data (snd (markAsRead token response i s)))
           = notifications (handleNotificationUpdate data s)
       \<and> unreadCount (handleNotificationUpdate data (snd (markAsRead token response i s)))
           = (if msg_is_read data then max 0 (unreadCount s - 1) else unreadCount s)"
  using assms
  by (simp add: action_defs handleNotificationUpdate_list handleNotificationUpdate_count)

theorem connected_mark_read_only_sends_witness:
  "socket (online [entry 3 False, entry 2 False] 2) \<noteq> None
   \<and> isConnected (online [entry 3 False, entry 2 False] 2)
   \<and> snd (markAsRead (Some ''tok'') (Ok ()) 2 (online [entry 3 False, entry 2 False] 2))
       = (online [entry 3 False, entry 2 False] 2)\<lparr>sent := [Mark_read 2]\<rparr>
   \<and> notifications (handleNotificationUpdate (updated_msg 2 True)
        (snd (markAsRead (Some ''tok'') (Ok ()) 2 (online [entry 3 False, entry 2 False] 2))))
       = [entry 3 False, entry 2 True]
   \<and> unreadCount (handleNotificationUpdate (updated_msg 2 True)
        (snd (markAsRead (Some ''tok'') (Ok ()) 2 (online [entry 3 False, entry 2 False] 2))))
       = 1"
proof -
  have a: "socket (online [entry 3 False, entry 2 False] 2) \<noteq> None"
    by (simp add: online_def)
  have b: "isConnected (online [entry 3 False, entry 2 False] 2)"
    by (simp add: online_def)
  note t = connected_mark_read_only_sends
      [OF a b, of "Some ''tok''" "Ok ()" 2 "updated_msg 2 True"]
  note t1 = t [THEN conjunct1]
  note t5 = t [THEN conjunct2, THEN conjunct2, THEN conjunct2, THEN conjunct2, THEN conjunct1]
  note t6 = t [THEN conjunct2, THEN conjunct2, THEN conjunct2, THEN conjunct2, THEN conjunct2]
  have c: "snd (markAsRead (Some ''tok'') (Ok ()) 2 (online [entry 3 False, entry 2 False] 2))
             = (online [entry 3 False, entry 2 False] 2)\<lparr>sent := [Mark_read 2]\<rparr>"
  proof -
    have "sent (online [entry 3 False, entry 2 False] 2) = []"
      by (simp add: online_def offline_def)
    with t1 show ?thesis
      by (simp add: no_token_def)
  qed
  have d: "notifications (handleNotificationUpdate (updated_msg 2 True)
             (snd (markAsRead (Some ''tok'') (Ok ()) 2 (online [entry 3 False, entry 2 False] 2))))
           = [entry 3 False, entry 2 True]"
  proof -
    have "notifications (handleNotificationUpdate (updated_msg 2 True)
            (online [entry 3 False, entry 2 False] 2)) = [entry 3 False, entry 2 True]"
      by (simp add: handleNotificationUpdate_list patch_def updated_msg_def online_def
          offline_def entry_def)
    with t5 show ?thesis
      by simp
  qed
  have e: "unreadCount (handleNotificationUpdate (updated_msg 2 True)
             (snd (markAsRead (Some ''tok'') (Ok ()) 2 (online [entry 3 False, entry 2 False] 2))))
           = 1"
  proof -
    have "msg_is_read (updated_msg 2 True)"
      and "unreadCount (online [entry 3 False, entry 2 False] 2) = 2"
      by (simp_all add: updated_msg_def online_def offline_def)
    with t6 show ?thesis
      by simp
  qed
  from a b c d e show ?thesis
    by blast
qed

text \<open>
  The claim as written fails where it has the frame sent whenever the provider is connected:
  connected and without a token, mark-read sends nothing.
\<close>

theorem connected_without_token_sends_nothing:
  "socket (online [entry 3 False, entry 2 False] 2) = Some 1
   \<and> isConnected (online [entry 3 False, entry 2 False] 2)
   \<and> sent (online [entry 3 False, entry 2 False] 2) = []
   \<and> sent (snd (markAsRead None (Ok ()) 2 (online [entry 3 False, entry 2 False] 2))) = []"
  by (simp add: action_defs no_token_def online_def offline_def)

text \<open>
  C10. From a counter that is not negative, every run of operations whose successful pulls
  bring a count that is not negative ends with a counter that is not negative. Each single
  operation leaves the counter, adds one, subtracts one clamped at zero, sets it to zero, or
  sets it to the count of a successful pull.
\<close>

theorem counter_never_negative:
  assumes "0 \<le> unreadCount s" and "list_all server_count_nonneg ops"
  shows "0 \<le> unreadCount (run s ops)
       \<and> (unreadCount (step s x) = unreadCount s
          \<or> unreadCount (step s x) = unreadCount s + 1
          \<or> unreadCount (step s x) = max 0 (unreadCount s - 1)
          \<or> unreadCount (step s x) = 0
          \<or> (\<exists>w token data. (x = Op_fetch token (Ok data) \<or> x = Op_open w token (Ok data))
                \<and> unreadCount (step s x) = unread_count data))"
proof
  from assms show "0 \<le> unreadCount (run s ops)"
  proof (induction ops arbitrary: s)
    case Nil
    then show ?case by simp
  next
    case (Cons y ys)
    then show ?case by (simp add: step_nonneg)
  qed
next
  show "unreadCount (step s x) = unreadCount s
          \<or> unreadCount (step s x) = unreadCount s + 1
          \<or> unreadCount (step s x) = max 0 (unreadCount s - 1)
          \<or> unreadCount (step s x) = 0
          \<or> (\<exists>w token data. (x = Op_fetch token (Ok data) \<or> x = Op_open w token (Ok data))
                \<and> unreadCount (step s x) = unread_count data)"
    by (rule step_counter_cases)
qed

theorem counter_never_negative_witness:
  "0 \<le> unreadCount (offline [] 0)
   \<and> list_all server_count_nonneg
        [Op_message (Parsed (updated_msg 5 True)),
         Op_message (Parsed (notification_msg (entry 6 False))),
         Op_markAsRead (Some ''tok'') (Ok ()) 6,
         Op_markAsRead (Some ''tok'') (Ok ()) 6,
         Op_fetch (Some ''tok'') (Ok (server_page [entry 6 True] 0)),
         Op_markAllAsRead (Some ''tok'') (Ok ())]
   \<and> unreadCount (run (offline [] 0)
        [Op_message (Parsed (updated_msg 5 True)),
         Op_message (Parsed (notification_msg (entry 6 False))),
         Op_markAsRead (Some ''tok'') (Ok ()) 6,
         Op_markAsRead (Some ''tok'') (Ok ()) 6,
         Op_fetch (Some ''tok'') (Ok (server_page [entry 6 True] 0)),
         Op_markAllAsRead (Some ''tok'') (Ok ())]) = 0"
proof -
  have a: "0 \<le> unreadCount (offline [] 0)"
    by (simp add: offline_def)
  have b: "list_all server_count_nonneg
        [Op_message (Parsed (updated_msg 5 True)),
         Op_message (Parsed (notification_msg (entry 6 False))),
         Op_markAsRead (Some ''tok'') (Ok ()) 6,
         Op_markAsRead (Some ''tok'') (Ok ()) 6,
         Op_fetch (Some ''tok'') (Ok (server_page [entry 6 True] 0)),
         Op_markAllAsRead (Some ''tok'') (Ok ())]"
    by (simp add: server_page_def)
  from a b counter_never_negative [OF a b]
  show ?thesis
    by (simp add: onmessage_def handleNewNotification_def handleNotificationUpdate_def action_defs
        no_token_def notification_msg_def updated_msg_def server_page_def offline_def Let_def)
qed

end
